theory Spec2Isabelle
  imports Complex_Main "HOL-Library.Char_ord" "HOL-Library.List_Lexorder" "HOL-Library.Multiset"
begin

section \<open>Data model\<close>

text \<open>
  The program (\<^verbatim>\<open>src/app.py\<close>) reads one sheet of a spreadsheet into a pandas data
  frame and works on its cells.  A cell is modelled by what pandas delivers for it:
  \<^item> \<open>Blank\<close>: the missing value (NaN); \<^verbatim>\<open>pd.isna\<close> and \<^verbatim>\<open>pd.notna\<close> test for it;
  \<^item> \<open>Number q\<close>: a numeric cell, a finite float, held as the rational it denotes;
  \<^item> \<open>Text s\<close>: a string cell.

  Strings are byte lists, and the model is of ASCII text: the character classes of
  Python (\<^verbatim>\<open>isspace\<close>, \<^verbatim>\<open>isdigit\<close>, the classes of regular expressions) are given
  for the ASCII characters.  Python counts further Unicode characters as spaces (such
  as the no-break space) and as digits; on a text that holds one of these the program
  may differ from the model.
\<close>

datatype cell = Blank | Number rat | Text string

text \<open>
  One record of the sheet \<^verbatim>\<open>receiptsWithItems\<close>, with the eight columns the program
  names.
\<close>

record row =
  ReceiptId :: cell
  Date :: cell
  Cashier :: cell
  CustomerName :: cell
  CustomerNumber :: cell
  EntryType :: cell
  EntryName :: cell
  PaymentMode :: cell

type_synonym frame = "row list"

section \<open>Record normalizer: \<^verbatim>\<open>process_excel_file\<close>\<close>

text \<open>
  \<^verbatim>\<open>Series.ffill()\<close>: scanning the column from the top, a missing cell takes the last
  value seen above it; before the first value it stays missing.
\<close>

fun ffill_from :: "cell \<Rightarrow> cell list \<Rightarrow> cell list" where
  "ffill_from seen [] = []"
| "ffill_from seen (c # cs) =
     (if c = Blank then seen # ffill_from seen cs else c # ffill_from c cs)"

definition ffill :: "cell list \<Rightarrow> cell list" where
  "ffill cs = ffill_from Blank cs"

text \<open>
  The columns of \<^verbatim>\<open>fill_columns\<close>, each as the pair of its reader and its writer.
\<close>

definition fill_columns :: "((row \<Rightarrow> cell) \<times> (cell \<Rightarrow> row \<Rightarrow> row)) list" where
  "fill_columns =
     [(ReceiptId, \<lambda>v r. r\<lparr>ReceiptId := v\<rparr>),
      (Date, \<lambda>v r. r\<lparr>Date := v\<rparr>),
      (Cashier, \<lambda>v r. r\<lparr>Cashier := v\<rparr>),
      (CustomerName, \<lambda>v r. r\<lparr>CustomerName := v\<rparr>),
      (CustomerNumber, \<lambda>v r. r\<lparr>CustomerNumber := v\<rparr>),
      (PaymentMode, \<lambda>v r. r\<lparr>PaymentMode := v\<rparr>)]"

text \<open>\<^verbatim>\<open>df[col] = df[col].ffill()\<close> for one column.\<close>

definition ffill_column :: "frame \<Rightarrow> (row \<Rightarrow> cell) \<times> (cell \<Rightarrow> row \<Rightarrow> row) \<Rightarrow> frame" where
  "ffill_column df col = map2 (snd col) (ffill (map (fst col) df)) df"

text \<open>The loop \<^verbatim>\<open>for col in fill_columns\<close>.\<close>

definition ffill_columns :: "frame \<Rightarrow> frame" where
  "ffill_columns df = foldl ffill_column df fill_columns"

text \<open>\<^verbatim>\<open>df.dropna(how='all')\<close>: a row goes when every cell of it is missing.\<close>

definition all_blank :: "row \<Rightarrow> bool" where
  "all_blank r \<longleftrightarrow>
     ReceiptId r = Blank \<and> Date r = Blank \<and> Cashier r = Blank \<and> CustomerName r = Blank \<and>
     CustomerNumber r = Blank \<and> EntryType r = Blank \<and> EntryName r = Blank \<and>
     PaymentMode r = Blank"

definition dropna_all :: "frame \<Rightarrow> frame" where
  "dropna_all df = filter (\<lambda>r. \<not> all_blank r) df"

text \<open>
  The body of \<^verbatim>\<open>process_excel_file\<close> after the sheet has been read: the argument is the
  frame \<^verbatim>\<open>pd.read_excel\<close> returned.
\<close>

definition process_excel_file :: "frame \<Rightarrow> frame" where
  "process_excel_file df = dropna_all (ffill_columns df)"

subsection \<open>The normalizer as the specification words it\<close>

text \<open>
  The nearest non-blank value at or above position \<open>i\<close> of a column, found by walking
  upwards from \<open>i\<close>; blank when there is none.
\<close>

fun nearest_preceding :: "cell list \<Rightarrow> nat \<Rightarrow> cell" where
  "nearest_preceding cs 0 = (case cs of [] \<Rightarrow> Blank | c # _ \<Rightarrow> c)"
| "nearest_preceding cs (Suc i) =
     (if cs ! Suc i \<noteq> Blank then cs ! Suc i else nearest_preceding cs i)"

text \<open>
  Row \<open>i\<close> with each carry-forward field replaced by the nearest preceding non-blank
  value of its column; \<open>EntryType\<close> and \<open>EntryName\<close> are not written.
\<close>

definition carried_row :: "frame \<Rightarrow> nat \<Rightarrow> row" where
  "carried_row df i =
     (df ! i)
       \<lparr>ReceiptId := nearest_preceding (map ReceiptId df) i,
        Date := nearest_preceding (map Date df) i,
        Cashier := nearest_preceding (map Cashier df) i,
        CustomerName := nearest_preceding (map CustomerName df) i,
        CustomerNumber := nearest_preceding (map CustomerNumber df) i,
        PaymentMode := nearest_preceding (map PaymentMode df) i\<rparr>"


section \<open>Python values\<close>

datatype error = ValueError | TypeError | OverflowError

text \<open>
  A Python float is a binary64 value: the rational it denotes, or an infinity, or NaN.
  The sign of zero is not modelled.
\<close>

datatype pyfloat = Finite rat | PosInf | NegInf | NaN

text \<open>\<^verbatim>\<open>int.bit_length()\<close>.\<close>

function bit_length :: "int \<Rightarrow> int" where
  "bit_length n = (if n \<le> 0 then 0 else 1 + bit_length (n div 2))"
  by pat_completeness auto
termination
  by (relation "measure nat") auto

declare bit_length.simps [simp del]

definition pow2 :: "int \<Rightarrow> rat" where
  "pow2 k = (if 0 \<le> k then 2 ^ nat k else 1 / 2 ^ nat (- k))"

text \<open>The exponent \<open>e\<close> with \<open>2^e \<le> p / d < 2^(e+1)\<close>, for positive \<open>p\<close> and \<open>d\<close>.\<close>

definition ilog2 :: "int \<Rightarrow> int \<Rightarrow> int" where
  "ilog2 p d =
     (let k = bit_length p - bit_length d
      in if pow2 k * of_int d \<le> of_int p then k else k - 1)"

definition round_half_even :: "rat \<Rightarrow> int" where
  "round_half_even x =
     (let f = \<lfloor>x\<rfloor>; r = x - of_int f
      in if r < 1 / 2 then f else if 1 / 2 < r then f + 1 else if even f then f else f + 1)"

text \<open>
  Rounding of a rational to the nearest binary64 value, ties to even: 53 significant
  bits, exponents from \<open>-1022\<close> (below it the spacing stays \<open>2^-1074\<close>, so that small
  values round to subnormal numbers or to zero), and an infinity from \<open>2^1024\<close> on.
\<close>

definition to_double :: "rat \<Rightarrow> pyfloat" where
  "to_double q =
     (if q = 0 then Finite 0
      else
        let (p, d) = quotient_of \<bar>q\<bar>;
            e = max (ilog2 p d) (- 1022);
            m = round_half_even (\<bar>q\<bar> * pow2 (52 - e));
            r = of_int m * pow2 (e - 52)
        in if 2 ^ 1024 \<le> r then (if 0 < q then PosInf else NegInf)
           else Finite (sgn q * r))"

text \<open>
  \<^verbatim>\<open>str.isspace\<close>, which \<^verbatim>\<open>str.strip\<close> and the class \<^verbatim>\<open>\s\<close> of a string pattern
  use, on ASCII.
\<close>

definition isspace :: "char \<Rightarrow> bool" where
  "isspace c \<longleftrightarrow>
     c \<in> set [CHR 0x09, CHR 0x0A, CHR 0x0B, CHR 0x0C, CHR 0x0D,
               CHR 0x1C, CHR 0x1D, CHR 0x1E, CHR 0x1F, CHR 0x20]"

text \<open>
  The white space \<^verbatim>\<open>float\<close> strips from a string: on ASCII only the six characters
  of C's \<^verbatim>\<open>isspace\<close>, without the separators \<^verbatim>\<open>0x1C\<close> to \<^verbatim>\<open>0x1F\<close>.
\<close>

definition isspace_c :: "char \<Rightarrow> bool" where
  "isspace_c c \<longleftrightarrow> c \<in> set [CHR 0x09, CHR 0x0A, CHR 0x0B, CHR 0x0C, CHR 0x0D, CHR 0x20]"

text \<open>\<^verbatim>\<open>str.isdigit\<close> and the class \<^verbatim>\<open>\d\<close>, on ASCII.\<close>

definition isdigit :: "char \<Rightarrow> bool" where
  "isdigit c \<longleftrightarrow> c \<in> set ''0123456789''"

definition digit_of :: "char \<Rightarrow> int" where
  "digit_of c = of_char c - 48"

definition int_of_digits :: "string \<Rightarrow> int" where
  "int_of_digits ds = foldl (\<lambda>n c. 10 * n + digit_of c) 0 ds"

text \<open>\<^verbatim>\<open>str.lstrip()\<close>, \<^verbatim>\<open>str.rstrip()\<close> and \<^verbatim>\<open>str.strip()\<close>.\<close>

definition lstrip :: "string \<Rightarrow> string" where
  "lstrip s = dropWhile isspace s"

definition rstrip :: "string \<Rightarrow> string" where
  "rstrip s = rev (dropWhile isspace (rev s))"

definition strip :: "string \<Rightarrow> string" where
  "strip s = rstrip (lstrip s)"

text \<open>\<^verbatim>\<open>str(n)\<close> for an integer \<open>n\<close>.\<close>

function str_nat :: "int \<Rightarrow> string" where
  "str_nat n =
     (if n < 10 then [''0123456789'' ! nat n]
      else str_nat (n div 10) @ [''0123456789'' ! nat (n mod 10)])"
  by pat_completeness auto
termination
  by (relation "measure nat") auto

declare str_nat.simps [simp del]

definition str_int :: "int \<Rightarrow> string" where
  "str_int i = (if i < 0 then CHR ''-'' # str_nat (- i) else str_nat i)"

subsection \<open>\<^verbatim>\<open>float(s)\<close> for a string\<close>

text \<open>
  The interpreter strips its white space at both ends, checks and removes the underscores
  (each must stand between two digits; \<open>prev\<close> is the character before), and hands the
  rest to its \<^verbatim>\<open>strtod\<close>, which must consume all of it: a sign, then either digits with
  an optional point and an optional exponent (at least one digit before the exponent,
  at least one in it), or one of the words \<^verbatim>\<open>inf\<close>, \<^verbatim>\<open>infinity\<close>, \<^verbatim>\<open>nan\<close> in any case.
  Anything else raises \<^verbatim>\<open>ValueError\<close>.
\<close>

fun strip_underscores :: "char \<Rightarrow> string \<Rightarrow> string option" where
  "strip_underscores prev [] = (if prev = CHR ''_'' then None else Some [])"
| "strip_underscores prev (c # cs) =
     (if c = CHR ''_'' then (if isdigit prev then strip_underscores c cs else None)
      else if prev = CHR ''_'' \<and> \<not> isdigit c then None
      else map_option ((#) c) (strip_underscores c cs))"

definition split_sign :: "string \<Rightarrow> bool \<times> string" where
  "split_sign s =
     (case s of
        [] \<Rightarrow> (False, [])
      | c # cs \<Rightarrow>
          if c = CHR ''-'' then (True, cs) else if c = CHR ''+'' then (False, cs) else (False, s))"

definition lower :: "char \<Rightarrow> char" where
  "lower c =
     (case map_of (zip ''ABCDEFGHIJKLMNOPQRSTUVWXYZ'' ''abcdefghijklmnopqrstuvwxyz'') c of
        Some d \<Rightarrow> d
      | None \<Rightarrow> c)"

definition parse_inf_or_nan :: "string \<Rightarrow> pyfloat option" where
  "parse_inf_or_nan s =
     (let (neg, r) = split_sign s; w = map lower r
      in if w = ''inf'' \<or> w = ''infinity'' then Some (if neg then NegInf else PosInf)
         else if w = ''nan'' then Some NaN
         else None)"

definition parse_exponent :: "string \<Rightarrow> int option" where
  "parse_exponent s =
     (case s of
        [] \<Rightarrow> Some 0
      | c # cs \<Rightarrow>
          if c = CHR ''e'' \<or> c = CHR ''E'' then
            (let (neg, ds) = split_sign cs
             in if ds \<noteq> [] \<and> list_all isdigit ds
                then Some (if neg then - int_of_digits ds else int_of_digits ds)
                else None)
          else None)"

definition scale10 :: "rat \<Rightarrow> int \<Rightarrow> rat" where
  "scale10 m k = (if 0 \<le> k then m * 10 ^ nat k else m / 10 ^ nat (- k))"

definition strtod_decimal :: "string \<Rightarrow> rat option" where
  "strtod_decimal s =
     (let ip = takeWhile isdigit s;
          r1 = dropWhile isdigit s;
          has_point = (case r1 of [] \<Rightarrow> False | c # _ \<Rightarrow> c = CHR ''.'');
          fp = (if has_point then takeWhile isdigit (tl r1) else []);
          r2 = (if has_point then dropWhile isdigit (tl r1) else r1)
      in if ip = [] \<and> fp = [] then None
         else (case parse_exponent r2 of
                 None \<Rightarrow> None
               | Some e \<Rightarrow> Some (scale10 (of_int (int_of_digits (ip @ fp))) (e - int (length fp)))))"

text \<open>
  The number is tried first and the words after it; a string that begins as a number
  does not begin as one of the words, so one \<open>None\<close> serves for "nothing consumed" and
  for "not consumed to the end".
\<close>

definition strtod :: "string \<Rightarrow> pyfloat option" where
  "strtod s =
     (let (neg, r) = split_sign s
      in case strtod_decimal r of
           Some q \<Rightarrow> Some (to_double (if neg then - q else q))
         | None \<Rightarrow> parse_inf_or_nan s)"

definition float_strip :: "string \<Rightarrow> string" where
  "float_strip s = rev (dropWhile isspace_c (rev (dropWhile isspace_c s)))"

definition py_float :: "string \<Rightarrow> error + pyfloat" where
  "py_float s =
     (case strip_underscores (CHR 0x00) (float_strip s) of
        None \<Rightarrow> Inl ValueError
      | Some u \<Rightarrow> (case strtod u of None \<Rightarrow> Inl ValueError | Some x \<Rightarrow> Inr x))"

text \<open>
  \<^verbatim>\<open>int(x)\<close> for a float: truncation towards zero; an infinity raises
  \<^verbatim>\<open>OverflowError\<close>, NaN raises \<^verbatim>\<open>ValueError\<close>.
\<close>

definition trunc :: "rat \<Rightarrow> int" where
  "trunc q = (if 0 \<le> q then \<lfloor>q\<rfloor> else \<lceil>q\<rceil>)"

fun py_int :: "pyfloat \<Rightarrow> error + int" where
  "py_int (Finite q) = Inr (trunc q)"
| "py_int PosInf = Inl OverflowError"
| "py_int NegInf = Inl OverflowError"
| "py_int NaN = Inl ValueError"

text \<open>
  \<^verbatim>\<open>str(val)\<close> for a cell.  The text of a float (Python's shortest representation that
  reads back as the same float) is not part of the program; it is the parameter
  \<open>float_repr\<close> wherever the program takes the text of a numeric cell.
\<close>

fun py_str :: "(rat \<Rightarrow> string) \<Rightarrow> cell \<Rightarrow> string" where
  "py_str float_repr Blank = ''nan''"
| "py_str float_repr (Number q) = float_repr q"
| "py_str float_repr (Text s) = s"

text \<open>The arithmetic of floats: the exact result, rounded.\<close>

fun fneg :: "pyfloat \<Rightarrow> pyfloat" where
  "fneg (Finite a) = Finite (- a)"
| "fneg PosInf = NegInf"
| "fneg NegInf = PosInf"
| "fneg NaN = NaN"

fun fadd :: "pyfloat \<Rightarrow> pyfloat \<Rightarrow> pyfloat" where
  "fadd (Finite a) (Finite b) = to_double (a + b)"
| "fadd NaN y = NaN"
| "fadd x NaN = NaN"
| "fadd PosInf NegInf = NaN"
| "fadd NegInf PosInf = NaN"
| "fadd PosInf y = PosInf"
| "fadd NegInf y = NegInf"
| "fadd x PosInf = PosInf"
| "fadd x NegInf = NegInf"

definition fsub :: "pyfloat \<Rightarrow> pyfloat \<Rightarrow> pyfloat" where
  "fsub x y = fadd x (fneg y)"

definition fsign :: "pyfloat \<Rightarrow> rat" where
  "fsign x = (case x of Finite a \<Rightarrow> sgn a | PosInf \<Rightarrow> 1 | NegInf \<Rightarrow> - 1 | NaN \<Rightarrow> 0)"

fun fmul :: "pyfloat \<Rightarrow> pyfloat \<Rightarrow> pyfloat" where
  "fmul (Finite a) (Finite b) = to_double (a * b)"
| "fmul NaN y = NaN"
| "fmul x NaN = NaN"
| "fmul x y =
     (if fsign x * fsign y = 0 then NaN else if 0 < fsign x * fsign y then PosInf else NegInf)"

text \<open>\<^verbatim>\<open>x == y\<close> on floats: NaN equals nothing.\<close>

definition py_eq :: "pyfloat \<Rightarrow> pyfloat \<Rightarrow> bool" where
  "py_eq x y \<longleftrightarrow> x \<noteq> NaN \<and> y \<noteq> NaN \<and> x = y"

text \<open>The truth value of a float: everything but zero.\<close>

definition truthy :: "pyfloat \<Rightarrow> bool" where
  "truthy x \<longleftrightarrow> x \<noteq> Finite 0"

section \<open>Identity resolver: \<^verbatim>\<open>get_unique_customers\<close>\<close>

text \<open>
  The inner function \<^verbatim>\<open>clean_phone_number\<close>.  A missing cell gives the empty string.
  For a numeric cell \<^verbatim>\<open>float(val)\<close> is the cell itself and \<^verbatim>\<open>int\<close> of a finite float
  does not raise.  For a text cell \<^verbatim>\<open>float\<close> or \<^verbatim>\<open>int\<close> may raise, and the handler
  returns \<^verbatim>\<open>str(val).strip()\<close>.
\<close>

fun clean_phone_number :: "cell \<Rightarrow> string" where
  "clean_phone_number Blank = []"
| "clean_phone_number (Number q) = str_int (trunc q)"
| "clean_phone_number (Text s) =
     (case py_float s of
        Inl e \<Rightarrow> strip s
      | Inr x \<Rightarrow> (case py_int x of Inl e \<Rightarrow> strip s | Inr n \<Rightarrow> str_int n))"

record customer =
  name :: string
  number :: string

text \<open>\<^verbatim>\<open>DataFrame.drop_duplicates()\<close>: the first occurrence of each row stays, in place.\<close>

fun drop_duplicates :: "'a list \<Rightarrow> 'a list" where
  "drop_duplicates [] = []"
| "drop_duplicates (x # xs) = x # drop_duplicates (filter (\<lambda>y. y \<noteq> x) xs)"

text \<open>
  The test \<^verbatim>\<open>payment_mode and payment_mode != "All"\<close>; the argument is optional and an
  empty string counts as absent.
\<close>

definition mode_given :: "string option \<Rightarrow> bool" where
  "mode_given payment_mode \<longleftrightarrow>
     (case payment_mode of None \<Rightarrow> False | Some m \<Rightarrow> m \<noteq> [] \<and> m \<noteq> ''All'')"

text \<open>The comparison \<^verbatim>\<open>df['PaymentMode'] == payment_mode\<close> on one cell.\<close>

definition mode_matches :: "string option \<Rightarrow> cell \<Rightarrow> bool" where
  "mode_matches payment_mode c \<longleftrightarrow>
     (case payment_mode of None \<Rightarrow> False | Some m \<Rightarrow> c = Text m)"

text \<open>
  \<^verbatim>\<open>get_unique_customers\<close>.  The rows are pairs of the cleaned name and the cleaned
  number.  \<^verbatim>\<open>sort_values\<close> is a parameter: pandas sorts with an algorithm that is not
  stable, so the program fixes the order of the result only up to rows of equal name.
\<close>

definition get_unique_customers ::
  "(rat \<Rightarrow> string) \<Rightarrow> ((string \<times> string) list \<Rightarrow> (string \<times> string) list) \<Rightarrow>
   frame \<Rightarrow> string option \<Rightarrow> customer list" where
  "get_unique_customers float_repr sort_values df payment_mode =
     (if df = [] then []
      else
        let customer_df = filter (\<lambda>r. CustomerName r \<noteq> Blank \<and> CustomerNumber r \<noteq> Blank) df;
            customer_df =
              (if mode_given payment_mode
               then filter (\<lambda>r. mode_matches payment_mode (PaymentMode r)) customer_df
               else customer_df);
            cleaned =
              map (\<lambda>r. (strip (py_str float_repr (CustomerName r)),
                         clean_phone_number (CustomerNumber r))) customer_df;
            unique_customers = drop_duplicates cleaned;
            unique_customers = sort_values unique_customers
        in map (\<lambda>(n, p). \<lparr>name = n, number = p\<rparr>) unique_customers)"

section \<open>Transaction filter: \<^verbatim>\<open>filter_customer_transactions\<close>\<close>

text \<open>
  The cleaning of a number given as text: \<^verbatim>\<open>str(int(float(s)))\<close>, and the digits of
  \<open>s\<close> when that raises.  The program has it twice, for the argument
  \<^verbatim>\<open>customer_number\<close> and, as the inner function \<^verbatim>\<open>clean_phone\<close>, for the text
  \<^verbatim>\<open>str(val)\<close> of each cell.
\<close>

definition clean_phone_str :: "string \<Rightarrow> string" where
  "clean_phone_str s =
     (case py_float s of
        Inl e \<Rightarrow> filter isdigit s
      | Inr x \<Rightarrow> (case py_int x of Inl e \<Rightarrow> filter isdigit s | Inr n \<Rightarrow> str_int n))"

definition clean_phone :: "(rat \<Rightarrow> string) \<Rightarrow> cell \<Rightarrow> string" where
  "clean_phone float_repr val = clean_phone_str (py_str float_repr val)"

text \<open>
  Instants are counted in nanoseconds, the resolution of a pandas timestamp; a calendar
  date is the number of its day.  \<open>None\<close> is NaT.
\<close>

definition ns_per_second :: int where
  "ns_per_second = 1000000000"

definition ns_per_day :: int where
  "ns_per_day = 86400 * ns_per_second"

text \<open>\<^verbatim>\<open>pd.Timedelta(hours=23, minutes=59, seconds=59)\<close>.\<close>

definition end_of_day_delta :: int where
  "end_of_day_delta = (23 * 3600 + 59 * 60 + 59) * ns_per_second"

record trans = row +
  DateParsed :: "int option"

definition with_date :: "row \<Rightarrow> int option \<Rightarrow> trans" where
  "with_date r d =
     \<lparr>ReceiptId = ReceiptId r, Date = Date r, Cashier = Cashier r,
      CustomerName = CustomerName r, CustomerNumber = CustomerNumber r,
      EntryType = EntryType r, EntryName = EntryName r, PaymentMode = PaymentMode r,
      DateParsed = d\<rparr>"

text \<open>The two comparisons with \<^verbatim>\<open>start_dt\<close> and \<^verbatim>\<open>end_dt\<close>; NaT compares false.\<close>

definition in_window :: "int \<Rightarrow> int \<Rightarrow> int option \<Rightarrow> bool" where
  "in_window start_dt end_dt d \<longleftrightarrow>
     (case d of None \<Rightarrow> False | Some t \<Rightarrow> start_dt \<le> t \<and> t \<le> end_dt)"

text \<open>
  \<^verbatim>\<open>filter_customer_transactions\<close>.  \<^verbatim>\<open>pd.to_datetime(column, errors='coerce')\<close> is the
  parameter \<open>to_datetime\<close>, from the cells of the column to their instants.
\<close>

definition filter_customer_transactions ::
  "(rat \<Rightarrow> string) \<Rightarrow> (cell list \<Rightarrow> int option list) \<Rightarrow>
   frame \<Rightarrow> string \<Rightarrow> int \<Rightarrow> int \<Rightarrow> string option \<Rightarrow> trans list" where
  "filter_customer_transactions float_repr to_datetime df customer_number start_date end_date
       payment_mode =
     (let start_dt = start_date * ns_per_day;
          end_dt = end_date * ns_per_day + end_of_day_delta;
          clean_number = clean_phone_str customer_number;
          customer_data =
            filter (\<lambda>r. clean_phone float_repr (CustomerNumber r) = clean_number) df;
          customer_data =
            map2 with_date customer_data (to_datetime (map Date customer_data));
          customer_data = filter (\<lambda>t. in_window start_dt end_dt (DateParsed t)) customer_data;
          customer_data =
            (if mode_given payment_mode
             then filter (\<lambda>t. mode_matches payment_mode (PaymentMode t)) customer_data
             else customer_data)
      in filter (\<lambda>t. EntryType t = Text ''Item'' \<or> EntryType t = Text ''Discount'')
           customer_data)"

section \<open>Line-item parser: \<^verbatim>\<open>parse_entry_name\<close>\<close>

text \<open>
  \<^verbatim>\<open>re.match(r'^(.*?)\s*\(', s)\<close>, returning group 1.  The lazy group is tried with
  no character first: the rest must then be white space followed by an opening
  parenthesis.  Otherwise the group takes one more character, which must not be a line
  feed, and the rest is tried again.
\<close>

definition space_then_paren :: "string \<Rightarrow> bool" where
  "space_then_paren s \<longleftrightarrow>
     (case dropWhile isspace s of [] \<Rightarrow> False | c # _ \<Rightarrow> c = CHR ''('')"

fun product_match :: "string \<Rightarrow> string option" where
  "product_match [] = (if space_then_paren [] then Some [] else None)"
| "product_match (c # cs) =
     (if space_then_paren (c # cs) then Some []
      else if c = CHR 0x0A then None
      else map_option ((#) c) (product_match cs))"

text \<open>The class \<^verbatim>\<open>[0-9.]\<close>.\<close>

definition isnumchar :: "char \<Rightarrow> bool" where
  "isnumchar c \<longleftrightarrow> c \<in> set ''0123456789.''"

text \<open>
  \<^verbatim>\<open>\(([0-9.]+)\s*X\s*([0-9.]+)\)\<close> matched at the head of a string, returning the two
  groups.  Each repetition is followed by a character outside its class, so the longest
  run is the only one that can match.
\<close>

definition qty_rate_at :: "string \<Rightarrow> (string \<times> string) option" where
  "qty_rate_at s =
     (case s of
        [] \<Rightarrow> None
      | c # r \<Rightarrow>
          if c \<noteq> CHR ''('' then None
          else
            let g1 = takeWhile isnumchar r;
                r1 = dropWhile isspace (dropWhile isnumchar r)
            in if g1 = [] then None
               else (case r1 of
                       [] \<Rightarrow> None
                     | x # r2 \<Rightarrow>
                         if x \<noteq> CHR ''X'' then None
                         else
                           let r3 = dropWhile isspace r2;
                               g2 = takeWhile isnumchar r3
                           in if g2 = [] then None
                              else (case dropWhile isnumchar r3 of
                                      [] \<Rightarrow> None
                                    | y # _ \<Rightarrow> if y = CHR '')'' then Some (g1, g2) else None)))"

text \<open>\<^verbatim>\<open>re.search\<close>: the first position of the string at which the pattern matches.\<close>

fun qty_rate_search :: "string \<Rightarrow> (string \<times> string) option" where
  "qty_rate_search [] = qty_rate_at []"
| "qty_rate_search (c # cs) =
     (case qty_rate_at (c # cs) of Some m \<Rightarrow> Some m | None \<Rightarrow> qty_rate_search cs)"

text \<open>
  \<^verbatim>\<open>parse_entry_name\<close>.  \<^verbatim>\<open>re.match\<close> raises \<^verbatim>\<open>TypeError\<close> on a value that is not a
  string; \<^verbatim>\<open>float\<close> raises \<^verbatim>\<open>ValueError\<close> on a group it cannot read.  The result is
  the triple (product, quantity, rate), \<open>None\<close> standing for Python's \<^verbatim>\<open>None\<close>.
\<close>

fun parse_entry_name ::
  "cell \<Rightarrow> error + (string option \<times> pyfloat option \<times> pyfloat option)" where
  "parse_entry_name Blank = Inr (None, None, None)"
| "parse_entry_name (Number q) = Inl TypeError"
| "parse_entry_name (Text s) =
     (let product = (case product_match s of Some g \<Rightarrow> strip g | None \<Rightarrow> [])
      in case qty_rate_search s of
           Some (g1, g2) \<Rightarrow>
             (case py_float g1 of
                Inl e \<Rightarrow> Inl e
              | Inr quantity \<Rightarrow>
                  (case py_float g2 of
                     Inl e \<Rightarrow> Inl e
                   | Inr rate \<Rightarrow> Inr (Some product, Some quantity, Some rate)))
         | None \<Rightarrow> Inr (Some product, None, None))"

section \<open>Pricing engine: \<^verbatim>\<open>apply_scheme_discount\<close> and the loop of \<^verbatim>\<open>generate_pdf\<close>\<close>

record scheme_config =
  product :: string
  price_1l_original :: pyfloat
  price_1l_discounted :: pyfloat
  price_500ml_original :: pyfloat
  price_500ml_discounted :: pyfloat

record config =
  scheme :: scheme_config

definition apply_scheme_discount :: "string \<Rightarrow> pyfloat \<Rightarrow> bool \<Rightarrow> config \<Rightarrow> pyfloat" where
  "apply_scheme_discount item rate apply_scheme cfg =
     (if \<not> apply_scheme then rate
      else
        let sch = scheme cfg
        in if item = product sch then
             (if py_eq rate (price_1l_original sch) then price_1l_discounted sch
              else if py_eq rate (price_500ml_original sch) then price_500ml_discounted sch
              else rate)
           else rate)"

text \<open>
  \<^verbatim>\<open>re.search(r'\((\d+)\)', s)\<close>, returning group 1: an opening parenthesis, the
  longest run of digits, a closing parenthesis.
\<close>

definition discount_at :: "string \<Rightarrow> string option" where
  "discount_at s =
     (case s of
        [] \<Rightarrow> None
      | c # r \<Rightarrow>
          if c \<noteq> CHR ''('' then None
          else
            let g = takeWhile isdigit r
            in if g = [] then None
               else (case dropWhile isdigit r of
                       [] \<Rightarrow> None
                     | y # _ \<Rightarrow> if y = CHR '')'' then Some g else None))"

fun discount_search :: "string \<Rightarrow> string option" where
  "discount_search [] = discount_at []"
| "discount_search (c # cs) =
     (case discount_at (c # cs) of Some g \<Rightarrow> Some g | None \<Rightarrow> discount_search cs)"

text \<open>
  A row of \<^verbatim>\<open>table_data\<close> below the header, with the values the program formats into
  its five cells: the date, and either the discount amount or the product, quantity,
  rate and amount.
\<close>

datatype line =
  DiscountLine int pyfloat
| ItemLine int string pyfloat pyfloat pyfloat

text \<open>
  The body of the loop over \<^verbatim>\<open>transactions.iterrows()\<close>, from the table and the total
  before a row to those after it.  \<^verbatim>\<open>strftime\<close> raises \<^verbatim>\<open>ValueError\<close> on NaT.  The test
  \<^verbatim>\<open>if product and quantity and rate\<close> fails on \<^verbatim>\<open>None\<close>, on the empty string and on
  zero.
\<close>

definition table_step ::
  "(rat \<Rightarrow> string) \<Rightarrow> bool \<Rightarrow> config \<Rightarrow> line list \<times> pyfloat \<Rightarrow> trans \<Rightarrow>
   error + (line list \<times> pyfloat)" where
  "table_step float_repr apply_scheme cfg acc t =
     (case acc of (table_data, total_amount) \<Rightarrow>
      case DateParsed t of
        None \<Rightarrow> Inl ValueError
      | Some date \<Rightarrow>
          if EntryType t = Text ''Discount'' then
            (case discount_search (py_str float_repr (EntryName t)) of
               None \<Rightarrow> Inr (table_data, total_amount)
             | Some g \<Rightarrow>
                 (case py_float g of
                    Inl e \<Rightarrow> Inl e
                  | Inr discount_amount \<Rightarrow>
                      Inr (table_data @ [DiscountLine date discount_amount],
                           fsub total_amount discount_amount)))
          else
            (case parse_entry_name (EntryName t) of
               Inl e \<Rightarrow> Inl e
             | Inr (Some item, Some quantity, Some rate) \<Rightarrow>
                 if item \<noteq> [] \<and> truthy quantity \<and> truthy rate then
                   (let rate' = apply_scheme_discount item rate apply_scheme cfg;
                        amount = fmul quantity rate'
                    in Inr (table_data @ [ItemLine date item quantity rate' amount],
                            fadd total_amount amount))
                 else Inr (table_data, total_amount)
             | Inr _ \<Rightarrow> Inr (table_data, total_amount)))"

fun table_loop ::
  "(rat \<Rightarrow> string) \<Rightarrow> bool \<Rightarrow> config \<Rightarrow> line list \<times> pyfloat \<Rightarrow> trans list \<Rightarrow>
   error + (line list \<times> pyfloat)" where
  "table_loop float_repr apply_scheme cfg acc [] = Inr acc"
| "table_loop float_repr apply_scheme cfg acc (t # ts) =
     (case table_step float_repr apply_scheme cfg acc t of
        Inl e \<Rightarrow> Inl e
      | Inr acc' \<Rightarrow> table_loop float_repr apply_scheme cfg acc' ts)"

text \<open>
  The part of \<^verbatim>\<open>generate_pdf\<close> that computes: the rows of the table below its header
  and \<^verbatim>\<open>total_amount\<close>, which starts at zero.
\<close>

definition generate_pdf ::
  "(rat \<Rightarrow> string) \<Rightarrow> trans list \<Rightarrow> bool \<Rightarrow> config \<Rightarrow> error + (line list \<times> pyfloat)" where
  "generate_pdf float_repr transactions apply_scheme cfg =
     table_loop float_repr apply_scheme cfg ([], Finite 0) transactions"

subsection \<open>The aggregation as the specification words it\<close>

text \<open>
  The running total after a listed line: an item line adds quantity times rate, a
  discount line subtracts its amount.
\<close>

fun line_total :: "pyfloat \<Rightarrow> line \<Rightarrow> pyfloat" where
  "line_total total_amount (ItemLine date item quantity rate amount) =
     fadd total_amount (fmul quantity rate)"
| "line_total total_amount (DiscountLine date discount_amount) =
     fsub total_amount discount_amount"

text \<open>
  The line a row is listed with, if it is a valid line.  A discount row is valid when
  its description holds a parenthesized run of digits.  Any other row is an item row,
  valid when its description parses to a product that is not empty and a quantity and a
  rate that are not zero; it is listed with the effective rate.
\<close>

definition listed_line :: "(rat \<Rightarrow> string) \<Rightarrow> bool \<Rightarrow> config \<Rightarrow> trans \<Rightarrow> line option" where
  "listed_line float_repr apply_scheme cfg t =
     (case DateParsed t of
        None \<Rightarrow> None
      | Some date \<Rightarrow>
          if EntryType t = Text ''Discount'' then
            (case discount_search (py_str float_repr (EntryName t)) of
               None \<Rightarrow> None
             | Some g \<Rightarrow>
                 (case py_float g of
                    Inl e \<Rightarrow> None
                  | Inr discount_amount \<Rightarrow> Some (DiscountLine date discount_amount)))
          else
            (case parse_entry_name (EntryName t) of
               Inl e \<Rightarrow> None
             | Inr (None, _, _) \<Rightarrow> None
             | Inr (Some item, None, _) \<Rightarrow> None
             | Inr (Some item, Some quantity, None) \<Rightarrow> None
             | Inr (Some item, Some quantity, Some rate) \<Rightarrow>
                 if item \<noteq> [] \<and> truthy quantity \<and> truthy rate then
                   Some (ItemLine date item quantity
                     (apply_scheme_discount item rate apply_scheme cfg)
                     (fmul quantity (apply_scheme_discount item rate apply_scheme cfg)))
                 else None))"

text \<open>The rows on which the loop stops with an exception.\<close>

definition row_raises :: "(rat \<Rightarrow> string) \<Rightarrow> trans \<Rightarrow> bool" where
  "row_raises float_repr t \<longleftrightarrow>
     DateParsed t = None \<or>
     (if EntryType t = Text ''Discount'' then
        (case discount_search (py_str float_repr (EntryName t)) of
           None \<Rightarrow> False
         | Some g \<Rightarrow> isl (py_float g))
      else isl (parse_entry_name (EntryName t)))"

text \<open>The configuration \<^verbatim>\<open>load_config\<close> returns when there is no \<^verbatim>\<open>config.yaml\<close>.\<close>

definition default_config :: config where
  "default_config =
     \<lparr>scheme =
        \<lparr>product = ''Raw Whole Milk'',
         price_1l_original = Finite 60,
         price_1l_discounted = Finite 55,
         price_500ml_original = Finite 30,
         price_500ml_discounted = Finite (55 / 2)\<rparr>\<rparr>"

section \<open>Sample rows\<close>

text \<open>
  A sale as the point of sale exports it, a row with every cell missing, and a discount
  row that relies on carry-forward for its customer and payment mode.
\<close>

definition sale_row :: row where
  "sale_row =
     \<lparr>ReceiptId = Text ''R-1'', Date = Text ''2024-06-01'', Cashier = Text ''Ravi'',
      CustomerName = Text ''Asha'', CustomerNumber = Text ''9876543210'',
      EntryType = Text ''Item'', EntryName = Text ''Raw Whole Milk (1 X 60)'',
      PaymentMode = Text ''Cash''\<rparr>"

definition blank_row :: row where
  "blank_row =
     \<lparr>ReceiptId = Blank, Date = Blank, Cashier = Blank, CustomerName = Blank,
      CustomerNumber = Blank, EntryType = Blank, EntryName = Blank, PaymentMode = Blank\<rparr>"

definition discount_row :: row where
  "discount_row =
     \<lparr>ReceiptId = Blank, Date = Text ''2024-06-05'', Cashier = Blank, CustomerName = Blank,
      CustomerNumber = Blank, EntryType = Text ''Discount'', EntryName = Text ''Loyalty (10)'',
      PaymentMode = Blank\<rparr>"

text \<open>
  Day numbers count from 1 January 1970; \<open>june_2024 d\<close> is the day \<open>d\<close> June 2024.
\<close>

definition june_2024 :: "int \<Rightarrow> int" where
  "june_2024 d = 19874 + d"

text \<open>
  A date conversion for the examples.  Like pandas it takes the format of the column
  from the first cell that is not missing and makes NaT of every cell that is not in
  that format; when it finds no format in that cell it reads each cell on its own.  It
  knows the texts below and none else.
\<close>

datatype date_format = DateOnly | DateTime | DateTimeFraction

definition sample_dates :: "(cell \<times> date_format \<times> int) list" where
  "sample_dates =
     [(Text ''2024-06-01'', DateOnly, june_2024 1 * ns_per_day),
      (Text ''2024-06-05'', DateOnly, june_2024 5 * ns_per_day),
      (Text ''2024-06-10 23:59:59'', DateTime, june_2024 10 * ns_per_day + 86399 * ns_per_second),
      (Text ''2024-06-11 00:00:00'', DateTime, june_2024 11 * ns_per_day),
      (Text ''2024-06-10 23:59:59.5'', DateTimeFraction,
         june_2024 10 * ns_per_day + 86399 * ns_per_second + 500000000)]"

definition sample_to_datetime :: "cell list \<Rightarrow> int option list" where
  "sample_to_datetime cs =
     (case List.find (\<lambda>c. c \<noteq> Blank) cs of
        None \<Rightarrow> map (\<lambda>c. None) cs
      | Some c0 \<Rightarrow>
          (case map_of sample_dates c0 of
             None \<Rightarrow> map (\<lambda>c. map_option snd (map_of sample_dates c)) cs
           | Some (fmt, i0) \<Rightarrow>
               map (\<lambda>c. case map_of sample_dates c of
                           None \<Rightarrow> None
                         | Some (f, i) \<Rightarrow> if f = fmt then Some i else None) cs))"

text \<open>A configuration whose two original prices are the same.\<close>

definition equal_prices_config :: config where
  "equal_prices_config =
     \<lparr>scheme =
        \<lparr>product = ''Raw Whole Milk'',
         price_1l_original = Finite 60,
         price_1l_discounted = Finite 55,
         price_500ml_original = Finite 60,
         price_500ml_discounted = Finite (55 / 2)\<rparr>\<rparr>"

text \<open>
  The text of a float whose value is an integer of fewer than seventeen digits: the
  integer followed by \<^verbatim>\<open>.0\<close>.  The examples below pass it for \<open>float_repr\<close>; none of
  them has a numeric cell of another kind.
\<close>

definition float_repr_small :: "rat \<Rightarrow> string" where
  "float_repr_small q = str_int (trunc q) @ ''.0''"

section \<open>Properties of the record normalizer\<close>

lemma length_ffill_from: "length (ffill_from s cs) = length cs"
  by (induction cs arbitrary: s) auto

lemma nearest_preceding_Cons:
  "k < length cs \<Longrightarrow> nearest_preceding (c # cs) (Suc k) =
     (if nearest_preceding cs k \<noteq> Blank then nearest_preceding cs k else c)"
  by (induction k) (auto split: list.splits)

lemma ffill_from_nth:
  "i < length cs \<Longrightarrow> ffill_from s cs ! i =
     (if nearest_preceding cs i = Blank then s else nearest_preceding cs i)"
proof (induction cs arbitrary: s i)
  case Nil
  then show ?case by simp
next
  case (Cons c cs)
  show ?case
  proof (cases i)
    case 0
    then show ?thesis by simp
  next
    case (Suc k)
    with Cons.prems have k: "k < length cs" by simp
    show ?thesis using Suc k Cons.IH[OF k]
      by (simp add: nearest_preceding_Cons del: nearest_preceding.simps)
  qed
qed

lemma ffill_nth: "i < length cs \<Longrightarrow> ffill cs ! i = nearest_preceding cs i"
  by (simp add: ffill_def ffill_from_nth)

lemma length_ffill: "length (ffill cs) = length cs"
  by (simp add: ffill_def length_ffill_from)

lemma length_ffill_column: "length (ffill_column df col) = length df"
  by (simp add: ffill_column_def length_ffill)

lemma ffill_column_nth:
  "i < length df \<Longrightarrow>
     ffill_column df col ! i = snd col (nearest_preceding (map (fst col) df) i) (df ! i)"
  by (simp add: ffill_column_def length_ffill ffill_nth)

lemma length_ffill_columns: "length (ffill_columns df) = length df"
  by (simp add: ffill_columns_def fill_columns_def length_ffill_column)

lemma ffill_column_other:
  assumes "\<And>v r. g' (s v r) = g' r"
  shows "map g' (ffill_column df (g, s)) = map g' df"
  by (rule nth_equalityI) (simp_all add: length_ffill_column ffill_column_nth assms)

lemma ffill_columns_nth:
  assumes "i < length df"
  shows "ffill_columns df ! i = carried_row df i"
  using assms
  by (simp add: ffill_columns_def fill_columns_def ffill_column_nth length_ffill_column
      ffill_column_other carried_row_def)

lemma ffill_columns_eq: "ffill_columns df = map (carried_row df) [0..<length df]"
  by (rule nth_equalityI) (simp_all add: length_ffill_columns ffill_columns_nth)

lemma nearest_preceding_Blank_iff:
  "i < length cs \<Longrightarrow> nearest_preceding cs i = Blank \<longleftrightarrow> (\<forall>j\<le>i. cs ! j = Blank)"
proof (induction i)
  case 0
  then show ?case by (cases cs) auto
next
  case (Suc i)
  then show ?case by (auto simp: le_Suc_eq)
qed

lemma nearest_preceding_self:
  "i < length cs \<Longrightarrow> cs ! i \<noteq> Blank \<Longrightarrow> nearest_preceding cs i = cs ! i"
  by (cases i; cases cs) auto

text \<open>
  \<open>nearest_preceding\<close> is the value at the greatest position not after \<open>i\<close> that holds
  a value.
\<close>

lemma nearest_preceding_found:
  "j \<le> i \<Longrightarrow> i < length cs \<Longrightarrow> cs ! j \<noteq> Blank \<Longrightarrow> \<forall>k. j < k \<and> k \<le> i \<longrightarrow> cs ! k = Blank \<Longrightarrow>
   nearest_preceding cs i = cs ! j"
proof (induction i)
  case 0
  then show ?case by (cases cs) auto
next
  case (Suc i)
  show ?case
  proof (cases "j = Suc i")
    case True
    with Suc.prems show ?thesis by simp
  next
    case False
    with Suc.prems have "j \<le> i" "cs ! Suc i = Blank" by auto
    with Suc show ?thesis by simp
  qed
qed

lemma all_blank_carried_row:
  assumes "i < length df"
  shows "all_blank (carried_row df i) \<longleftrightarrow>
     EntryType (df ! i) = Blank \<and> EntryName (df ! i) = Blank \<and>
     (\<forall>j\<le>i. \<forall>col\<in>set fill_columns. fst col (df ! j) = Blank)"
  using assms
  by (auto simp: all_blank_def carried_row_def fill_columns_def nearest_preceding_Blank_iff)

lemmas sample_rows = sale_row_def blank_row_def discount_row_def

text \<open>
  C5.  For every frame, normalization gives each carry-forward field (\<open>ReceiptId\<close>,
  \<open>Date\<close>, \<open>Cashier\<close>, \<open>CustomerName\<close>, \<open>CustomerNumber\<close>, \<open>PaymentMode\<close>) of each row
  the nearest non-blank value at or above it in its column, blank when there is none,
  and writes no other field: the rows it returns are the rows \<open>carried_row df i\<close>, in
  order, without those that are entirely blank.
\<close>

theorem carry_forward_fill:
  "process_excel_file df = filter (\<lambda>r. \<not> all_blank r) (map (carried_row df) [0..<length df])"
  by (simp add: process_excel_file_def dropna_all_def ffill_columns_eq)

text \<open>
  C4, as the claim states it, fails: a row that is entirely blank in the input and
  follows a sale is filled from the sale and stays in the table.
\<close>

theorem blank_row_kept_counterexample:
  "all_blank blank_row \<and>
   process_excel_file [sale_row, blank_row] =
     [sale_row, sale_row\<lparr>EntryType := Blank, EntryName := Blank\<rparr>]"
  by (simp add: process_excel_file_def dropna_all_def ffill_columns_def fill_columns_def
      ffill_column_def ffill_def all_blank_def sample_rows)

text \<open>
  C4, amended.  No row of the normalized table is entirely blank, blankness being
  judged after the carry-forward.  A row that is entirely blank in the input is kept,
  filled, exactly when some carry-forward column holds a value in an earlier row.
\<close>

theorem blank_rows_after_fill:
  "(\<forall>r\<in>set (process_excel_file df). \<not> all_blank r) \<and>
   (\<forall>i<length df. all_blank (df ! i) \<longrightarrow>
      (carried_row df i \<in> set (process_excel_file df)) =
      (\<exists>j<i. \<exists>col\<in>set fill_columns. fst col (df ! j) \<noteq> Blank))"
proof (intro conjI allI impI)
  show "\<forall>r\<in>set (process_excel_file df). \<not> all_blank r"
    by (simp add: process_excel_file_def dropna_all_def)
next
  fix i
  assume i: "i < length df" and b: "all_blank (df ! i)"
  have here: "\<forall>col\<in>set fill_columns. fst col (df ! i) = Blank"
    using b by (simp add: all_blank_def fill_columns_def)
  have "carried_row df i \<in> set (process_excel_file df) \<longleftrightarrow> \<not> all_blank (carried_row df i)"
    using i by (auto simp: process_excel_file_def dropna_all_def ffill_columns_eq)
  also have "\<dots> \<longleftrightarrow> (\<exists>j\<le>i. \<exists>col\<in>set fill_columns. fst col (df ! j) \<noteq> Blank)"
    using b by (simp add: all_blank_carried_row [OF i]) (simp add: all_blank_def)
  also have "\<dots> \<longleftrightarrow> (\<exists>j<i. \<exists>col\<in>set fill_columns. fst col (df ! j) \<noteq> Blank)"
    using here by (metis le_neq_implies_less less_imp_le)
  finally show "(carried_row df i \<in> set (process_excel_file df)) =
      (\<exists>j<i. \<exists>col\<in>set fill_columns. fst col (df ! j) \<noteq> Blank)" .
qed

theorem blank_rows_after_fill_witness:
  "1 < length [sale_row, blank_row] \<and> all_blank ([sale_row, blank_row] ! 1) \<and>
   carried_row [sale_row, blank_row] 1 \<in> set (process_excel_file [sale_row, blank_row]) \<and>
   \<not> all_blank (carried_row [sale_row, blank_row] 1)"
proof -
  let ?df = "[sale_row, blank_row]"
  have b: "all_blank (?df ! 1)"
    by (simp add: all_blank_def blank_row_def)
  have "\<exists>j<1. \<exists>col\<in>set fill_columns. fst col (?df ! j) \<noteq> Blank"
    by (simp add: fill_columns_def sale_row_def)
  with b blank_rows_after_fill [of ?df]
  have m: "carried_row ?df 1 \<in> set (process_excel_file ?df)"
    by simp
  with blank_rows_after_fill [of ?df] have "\<not> all_blank (carried_row ?df 1)"
    by blast
  with b m show ?thesis by simp
qed

text \<open>
  C6.  On a frame in which every carry-forward field of every row is filled and no row
  is entirely blank, normalization returns the frame unchanged.
\<close>

theorem normalize_filled_noop:
  assumes filled: "\<forall>r\<in>set df. ReceiptId r \<noteq> Blank \<and> Date r \<noteq> Blank \<and> Cashier r \<noteq> Blank \<and>
       CustomerName r \<noteq> Blank \<and> CustomerNumber r \<noteq> Blank \<and> PaymentMode r \<noteq> Blank"
    and nonblank: "\<forall>r\<in>set df. \<not> all_blank r"
  shows "process_excel_file df = df"
proof -
  have "carried_row df i = df ! i" if "i < length df" for i
    using that filled by (simp add: carried_row_def nearest_preceding_self)
  then have "map (carried_row df) [0..<length df] = df"
    by (intro nth_equalityI) simp_all
  with nonblank show ?thesis
    by (simp add: process_excel_file_def dropna_all_def ffill_columns_eq)
qed

theorem normalize_filled_noop_witness:
  "list_all (\<lambda>r. ReceiptId r \<noteq> Blank \<and> Date r \<noteq> Blank \<and> Cashier r \<noteq> Blank \<and>
      CustomerName r \<noteq> Blank \<and> CustomerNumber r \<noteq> Blank \<and> PaymentMode r \<noteq> Blank)
     [sale_row, sale_row\<lparr>EntryName := Blank\<rparr>] \<and>
   list_all (\<lambda>r. \<not> all_blank r) [sale_row, sale_row\<lparr>EntryName := Blank\<rparr>] \<and>
   process_excel_file [sale_row, sale_row\<lparr>EntryName := Blank\<rparr>] =
     [sale_row, sale_row\<lparr>EntryName := Blank\<rparr>]"
proof -
  let ?df = "[sale_row, sale_row\<lparr>EntryName := Blank\<rparr>]"
  have f: "\<forall>r\<in>set ?df. ReceiptId r \<noteq> Blank \<and> Date r \<noteq> Blank \<and> Cashier r \<noteq> Blank \<and>
      CustomerName r \<noteq> Blank \<and> CustomerNumber r \<noteq> Blank \<and> PaymentMode r \<noteq> Blank"
    by (simp add: sale_row_def)
  have n: "\<forall>r\<in>set ?df. \<not> all_blank r"
    by (simp add: sale_row_def all_blank_def)
  from f n normalize_filled_noop [OF f n] show ?thesis
    by (simp only: list_all_iff)
qed

section \<open>Properties of the rounding\<close>

text \<open>An integer of magnitude below \<open>2^53\<close> is a float: rounding leaves it as it is.\<close>

lemma bit_length_lower:
  "0 < n \<Longrightarrow> 1 \<le> bit_length n \<and> 2 ^ nat (bit_length n - 1) \<le> n"
proof (induction n rule: bit_length.induct)
  case (1 n)
  show ?case
  proof (cases "n = 1")
    case True
    then show ?thesis by (simp add: bit_length.simps)
  next
    case False
    with "1.prems" have h: "0 < n div 2" by simp
    with "1.prems" "1.IH" have ih: "1 \<le> bit_length (n div 2)"
      "2 ^ nat (bit_length (n div 2) - 1) \<le> n div 2" by simp_all
    have b: "bit_length n = 1 + bit_length (n div 2)"
      using "1.prems" by (subst bit_length.simps) simp
    have "(2::int) ^ nat (bit_length n - 1) = 2 * 2 ^ nat (bit_length (n div 2) - 1)"
      using ih(1) by (simp add: b flip: power_Suc)
    also have "\<dots> \<le> 2 * (n div 2)" using ih(2) by simp
    also have "\<dots> \<le> n" by simp
    finally show ?thesis using ih(1) b by simp
  qed
qed

lemma bit_length_1: "bit_length 1 = 1"
  by (simp add: bit_length.simps [of 1] bit_length.simps [of 0])

lemma round_half_even_of_int: "round_half_even (of_int n) = n"
  by (simp add: round_half_even_def)

lemma to_double_pos_int:
  assumes "0 < n" "n < 2 ^ 53"
  shows "to_double (of_int n) = Finite (of_int n)"
proof -
  let ?e = "bit_length n - 1"
  from bit_length_lower [OF assms(1)] have e0: "0 \<le> ?e" and lo: "2 ^ nat ?e \<le> n"
    by simp_all
  have e52: "?e \<le> 52"
  proof (rule ccontr)
    assume "\<not> ?e \<le> 52"
    then have "53 \<le> nat ?e" by simp
    then have "(2::int) ^ 53 \<le> 2 ^ nat ?e" by (intro power_increasing) simp_all
    with lo assms(2) show False by simp
  qed
  have q: "quotient_of \<bar>of_int n :: rat\<bar> = (n, 1)"
    using assms(1) by (simp flip: of_int_abs)
  have lo': "(2::rat) ^ nat ?e \<le> of_int n"
    using lo by (metis of_int_le_iff of_int_numeral of_int_power)
  have il: "ilog2 n 1 = ?e"
    using lo' e0 by (simp add: ilog2_def pow2_def bit_length_1)
  have sc: "\<bar>of_int n :: rat\<bar> * pow2 (52 - ?e) = of_int (n * 2 ^ nat (52 - ?e))"
    using assms(1) e52 by (simp add: pow2_def)
  have m: "round_half_even (\<bar>of_int n :: rat\<bar> * pow2 (52 - ?e)) = n * 2 ^ nat (52 - ?e)"
    unfolding sc by (rule round_half_even_of_int)
  have p: "(2::rat) ^ nat (52 - ?e) * pow2 (?e - 52) = 1"
    using e52 by (cases "?e = 52") (simp_all add: pow2_def)
  have r: "(of_int (n * 2 ^ nat (52 - ?e)) :: rat) * pow2 (?e - 52) = of_int n"
    using p by (simp add: mult.assoc)
  have "(of_int n :: rat) < 2 ^ 53"
    using assms(2) by (metis of_int_less_iff of_int_numeral of_int_power)
  also have "\<dots> \<le> 2 ^ 1024" by (intro power_increasing) simp_all
  finally have big: "\<not> (2 ^ 1024 \<le> (of_int n :: rat))" by simp
  have mx: "max ?e (- 1022) = ?e" using e0 by simp
  have "to_double (of_int n) =
      (if (of_int n :: rat) = 0 then Finite 0
       else if 2 ^ 1024 \<le> (of_int n :: rat) then (if 0 < (of_int n :: rat) then PosInf else NegInf)
       else Finite (sgn (of_int n) * of_int n))"
    by (simp only: to_double_def q Let_def split_conv il mx m r)
  with assms(1) big show ?thesis
    by simp
qed

lemma to_double_numeral [simp]:
  "numeral k < (2::int) ^ 53 \<Longrightarrow> to_double (numeral k) = Finite (numeral k)"
  using to_double_pos_int [of "numeral k"] by simp

lemma to_double_0 [simp]: "to_double 0 = Finite 0"
  by (simp add: to_double_def)

lemma to_double_1 [simp]: "to_double 1 = Finite 1"
  using to_double_pos_int [of 1] by simp

section \<open>Evaluation\<close>

text \<open>The definitions a concrete input is evaluated with.\<close>

lemmas char_class_defs = isspace_def isdigit_def isnumchar_def

lemmas float_defs = py_float_def float_strip_def isspace_c_def strip_def lstrip_def rstrip_def
  strtod_def split_sign_def strtod_decimal_def parse_exponent_def int_of_digits_def digit_of_def
  scale10_def parse_inf_or_nan_def lower_def

lemmas regex_defs = space_then_paren_def qty_rate_at_def discount_at_def

lemmas table_defs = generate_pdf_def table_step_def with_date_def apply_scheme_discount_def
  truthy_def fsub_def Let_def

section \<open>Properties of the phone cleaning\<close>

lemma py_float_dashed: "py_float ''98765-43210'' = Inl ValueError"
  by (simp add: float_defs char_class_defs)

text \<open>
  C1.  The resolver and the filter do not clean a phone number alike.  On the text cell
  \<^verbatim>\<open>98765-43210\<close> the numeric reading fails in both; the resolver's
  \<^verbatim>\<open>clean_phone_number\<close> then returns the text stripped of surrounding white space,
  dash included, while the filter's \<^verbatim>\<open>clean_phone\<close> returns its digits.
\<close>

theorem phone_cleaning_differs:
  "clean_phone_number (Text ''98765-43210'') = ''98765-43210'' \<and>
   clean_phone float_repr (Text ''98765-43210'') = ''9876543210''"
  by (simp add: clean_phone_def clean_phone_str_def py_float_dashed)
     (simp add: strip_def lstrip_def rstrip_def char_class_defs)

text \<open>Where the numeric reading succeeds the two agree on a text cell.\<close>

lemma phone_cleaning_numeric_agrees:
  "py_float s = Inr x \<Longrightarrow> py_int x = Inr n \<Longrightarrow>
   clean_phone_number (Text s) = clean_phone float_repr (Text s)"
  by (simp add: clean_phone_def clean_phone_str_def)

section \<open>Properties of the identity resolver\<close>

lemma set_drop_duplicates: "set (drop_duplicates xs) = set xs"
  by (induction xs rule: drop_duplicates.induct) auto

lemma distinct_drop_duplicates: "distinct (drop_duplicates xs)"
  by (induction xs rule: drop_duplicates.induct) (auto simp: set_drop_duplicates)

lemma str_int_sample: "str_int 9000000001 = ''9000000001''"
  by (simp add: str_int_def str_nat.simps)

lemma clean_phone_number_sample:
  "clean_phone_number (Text ''9.000000001E9'') = ''9000000001''"
  by (simp add: float_defs char_class_defs trunc_def str_int_sample)

text \<open>
  What the resolver does with its own cleaning of the number, whatever sort
  \<^verbatim>\<open>sort_values\<close> is, as long as it permutes its rows and leaves them ascending by
  name: it returns each pair of trimmed name and cleaned number of the rows that have
  both, and that match the payment mode when one is given, exactly once, ascending by
  name.
\<close>

lemma resolver_pairs:
  assumes perm: "\<And>xs. mset (sort_values xs) = mset xs"
    and srt: "\<And>xs. sorted (map fst (sort_values xs))"
  shows "distinct (get_unique_customers fr sort_values df pm) \<and>
    sorted (map name (get_unique_customers fr sort_values df pm)) \<and>
    set (get_unique_customers fr sort_values df pm) =
      (\<lambda>r. \<lparr>name = strip (py_str fr (CustomerName r)),
              number = clean_phone_number (CustomerNumber r)\<rparr>) `
      {r \<in> set df. CustomerName r \<noteq> Blank \<and> CustomerNumber r \<noteq> Blank \<and>
         (mode_given pm \<longrightarrow> mode_matches pm (PaymentMode r))}"
proof -
  have s: "set (sort_values xs) = set xs" for xs
    using perm [of xs] by (metis set_mset_mset)
  have d: "distinct (sort_values xs) = distinct xs" for xs
    using perm [of xs] by (metis distinct_count_atmost_1 set_mset_mset mset_eq_setD count_mset) 
  have n: "name \<circ> (\<lambda>(n, p). \<lparr>name = n, number = p\<rparr>) = fst"
    by (auto simp: fun_eq_iff)
  show ?thesis
  proof (cases "df = []")
    case True
    then show ?thesis by (simp add: get_unique_customers_def)
  next
    case False
    then show ?thesis
      by (auto simp: get_unique_customers_def Let_def n srt s d distinct_map
          distinct_drop_duplicates set_drop_duplicates inj_on_def image_iff)
  qed
qed

lemma resolver_pairs_example:
  "distinct (get_unique_customers float_repr_small (sort_key fst)
     [sale_row\<lparr>CustomerName := Text ''asha'', CustomerNumber := Number 9000000001\<rparr>,
      sale_row\<lparr>CustomerName := Text ''Asha '', CustomerNumber := Text ''9.000000001E9''\<rparr>,
      sale_row\<lparr>CustomerName := Text '' asha'', CustomerNumber := Number 9000000001\<rparr>,
      sale_row\<lparr>CustomerName := Text ''Zoya'', CustomerNumber := Blank\<rparr>]
     (Some ''All'')) \<and>
   get_unique_customers float_repr_small (sort_key fst)
     [sale_row\<lparr>CustomerName := Text ''asha'', CustomerNumber := Number 9000000001\<rparr>,
      sale_row\<lparr>CustomerName := Text ''Asha '', CustomerNumber := Text ''9.000000001E9''\<rparr>,
      sale_row\<lparr>CustomerName := Text '' asha'', CustomerNumber := Number 9000000001\<rparr>,
      sale_row\<lparr>CustomerName := Text ''Zoya'', CustomerNumber := Blank\<rparr>]
     (Some ''All'') =
   [\<lparr>name = ''Asha'', number = ''9000000001''\<rparr>, \<lparr>name = ''asha'', number = ''9000000001''\<rparr>]"
proof -
  let ?df = "[sale_row\<lparr>CustomerName := Text ''asha'', CustomerNumber := Number 9000000001\<rparr>,
      sale_row\<lparr>CustomerName := Text ''Asha '', CustomerNumber := Text ''9.000000001E9''\<rparr>,
      sale_row\<lparr>CustomerName := Text '' asha'', CustomerNumber := Number 9000000001\<rparr>,
      sale_row\<lparr>CustomerName := Text ''Zoya'', CustomerNumber := Blank\<rparr>]"
  let ?cs = "get_unique_customers float_repr_small (sort_key fst) ?df (Some ''All'')"
  have p: "\<And>xs :: (string \<times> string) list. mset (sort_key fst xs) = mset xs"
    by simp
  have q: "\<And>xs :: (string \<times> string) list. sorted (map fst (sort_key fst xs))"
    by (rule sorted_sort_key)
  have ev: "?cs =
     [\<lparr>name = ''Asha'', number = ''9000000001''\<rparr>, \<lparr>name = ''asha'', number = ''9000000001''\<rparr>]"
    by (simp add: get_unique_customers_def mode_given_def sale_row_def clean_phone_number_sample
        trunc_def str_int_sample strip_def lstrip_def rstrip_def isspace_def
        del: clean_phone_number.simps(3))
  from resolver_pairs [of "sort_key fst" float_repr_small ?df "Some ''All''", OF p q]
  have "distinct ?cs"
    by blast
  with ev show ?thesis by simp
qed

text \<open>
  C7.  The resolver does not return one customer for each pair of trimmed name and
  canonical, digits-only phone.  Its cleaning keeps the separators of a number that is
  not numeric, so one customer whose number is written once with a dash and once
  without is listed twice, under one name and two numbers that the filter both cleans
  to the same digits.  The rows here are filtered by the payment mode \<^verbatim>\<open>Cash\<close>.
\<close>

theorem resolver_splits_one_phone:
  "get_unique_customers float_repr_small (sort_key fst)
     [sale_row\<lparr>CustomerNumber := Text ''98765-43210''\<rparr>,
      sale_row,
      sale_row\<lparr>CustomerName := Text ''Bina'', PaymentMode := Text ''Card''\<rparr>]
     (Some ''Cash'') =
   [\<lparr>name = ''Asha'', number = ''98765-43210''\<rparr>, \<lparr>name = ''Asha'', number = ''9876543210''\<rparr>] \<and>
   clean_phone_str ''98765-43210'' = ''9876543210'' \<and>
   clean_phone_str ''9876543210'' = ''9876543210''"
proof -
  have a: "clean_phone_number (Text ''98765-43210'') = ''98765-43210''"
    by (simp add: py_float_dashed) (simp add: strip_def lstrip_def rstrip_def char_class_defs)
  have b: "clean_phone_number (Text ''9876543210'') = ''9876543210''"
    by (simp add: float_defs char_class_defs trunc_def str_int_def str_nat.simps)
  have c: "clean_phone_str ''98765-43210'' = ''9876543210''"
    by (simp add: clean_phone_str_def py_float_dashed char_class_defs)
  have d: "clean_phone_str ''9876543210'' = ''9876543210''"
    by (simp add: clean_phone_str_def float_defs char_class_defs trunc_def str_int_def
        str_nat.simps)
  have "get_unique_customers float_repr_small (sort_key fst)
     [sale_row\<lparr>CustomerNumber := Text ''98765-43210''\<rparr>,
      sale_row,
      sale_row\<lparr>CustomerName := Text ''Bina'', PaymentMode := Text ''Card''\<rparr>]
     (Some ''Cash'') =
   [\<lparr>name = ''Asha'', number = ''98765-43210''\<rparr>, \<lparr>name = ''Asha'', number = ''9876543210''\<rparr>]"
    by (simp add: get_unique_customers_def mode_given_def mode_matches_def sale_row_def a b
        strip_def lstrip_def rstrip_def isspace_def del: clean_phone_number.simps(3))
  with c d show ?thesis by simp
qed

section \<open>Properties of the transaction filter\<close>

lemma end_of_day_delta_eq: "end_of_day_delta = 86399 * ns_per_second"
  by (simp add: end_of_day_delta_def)

lemma clean_phone_sample: "clean_phone_str ''9876543210'' = ''9876543210''"
  by (simp add: clean_phone_str_def float_defs char_class_defs trunc_def str_int_def
      str_nat.simps)

lemmas filter_defs = clean_phone_def clean_phone_sample sample_to_datetime_def sample_dates_def
  with_date_def mode_given_def mode_matches_def june_2024_def ns_per_day_def ns_per_second_def
  sale_row_def

text \<open>
  C9.  The window does not reach the last instant of the end date: it closes at
  23:59:59.  With the range 1 to 10 June, a row of the customer dated half a second
  after 23:59:59 on 10 June, an instant of the end date, is left out.
\<close>

theorem final_second_excluded:
  "filter_customer_transactions float_repr_small sample_to_datetime
     [sale_row\<lparr>Date := Text ''2024-06-10 23:59:59.5''\<rparr>]
     ''9876543210'' (june_2024 1) (june_2024 10) None = [] \<and>
   sample_to_datetime [Text ''2024-06-10 23:59:59.5''] =
     [Some (june_2024 10 * ns_per_day + 86399 * ns_per_second + 500000000)] \<and>
   june_2024 10 * ns_per_day \<le> june_2024 10 * ns_per_day + 86399 * ns_per_second + 500000000 \<and>
   june_2024 10 * ns_per_day + 86399 * ns_per_second + 500000000 < june_2024 11 * ns_per_day"
  by (simp add: filter_customer_transactions_def in_window_def end_of_day_delta_def filter_defs)

text \<open>
  What the filter does: it returns, in order, the rows of the customer whose date
  converts to an instant from 00:00:00 of the start date to 23:59:59 of the end date,
  both included, that match the payment mode when one is given and are items or
  discounts.  A row whose date does not convert is left out without an error.
\<close>

lemma date_window:
  "filter_customer_transactions fr td df cn sd ed pm =
     filter
       (\<lambda>t. (case DateParsed t of
                None \<Rightarrow> False
              | Some i \<Rightarrow> sd * ns_per_day \<le> i \<and> i \<le> ed * ns_per_day + 86399 * ns_per_second) \<and>
            (mode_given pm \<longrightarrow> mode_matches pm (PaymentMode t)) \<and>
            (EntryType t = Text ''Item'' \<or> EntryType t = Text ''Discount''))
       (map2 with_date
          (filter (\<lambda>r. clean_phone fr (CustomerNumber r) = clean_phone_str cn) df)
          (td (map Date (filter (\<lambda>r. clean_phone fr (CustomerNumber r) = clean_phone_str cn) df))))"
  unfolding filter_customer_transactions_def Let_def in_window_def end_of_day_delta_eq
  by (cases "mode_given pm") (auto intro!: filter_cong simp: conj_ac)

text \<open>
  Of four rows of one customer, dated at 23:59:59 of the end date, at 00:00:00 of the
  next day, with a text that is no date, and at 23:59:59 of the end date but paid by
  card, the filter for \<^verbatim>\<open>Cash\<close> keeps the first.
\<close>

lemma date_window_example:
  "filter_customer_transactions float_repr_small sample_to_datetime
     [sale_row\<lparr>Date := Text ''2024-06-10 23:59:59''\<rparr>,
      sale_row\<lparr>Date := Text ''2024-06-11 00:00:00''\<rparr>,
      sale_row\<lparr>Date := Text ''next week''\<rparr>,
      sale_row\<lparr>Date := Text ''2024-06-10 23:59:59'', PaymentMode := Text ''Card''\<rparr>]
     ''9876543210'' (june_2024 1) (june_2024 10) (Some ''Cash'') =
   [with_date (sale_row\<lparr>Date := Text ''2024-06-10 23:59:59''\<rparr>)
      (Some (june_2024 10 * ns_per_day + 86399 * ns_per_second))]"
  using date_window [of float_repr_small sample_to_datetime
     "[sale_row\<lparr>Date := Text ''2024-06-10 23:59:59''\<rparr>,
      sale_row\<lparr>Date := Text ''2024-06-11 00:00:00''\<rparr>,
      sale_row\<lparr>Date := Text ''next week''\<rparr>,
      sale_row\<lparr>Date := Text ''2024-06-10 23:59:59'', PaymentMode := Text ''Card''\<rparr>]"
     "''9876543210''" "june_2024 1" "june_2024 10" "Some ''Cash''"]
  by (simp add: filter_defs)

section \<open>Properties of the line-item parser\<close>

text \<open>
  C10.  The parser is not total.  The group \<^verbatim>\<open>[0-9.]+\<close> admits \<^verbatim>\<open>1.2.3\<close>, on which
  \<^verbatim>\<open>float\<close> raises \<^verbatim>\<open>ValueError\<close>; and a numeric cell reaches \<^verbatim>\<open>re.match\<close>, which
  raises \<^verbatim>\<open>TypeError\<close>.
\<close>

theorem parse_entry_name_raises:
  "parse_entry_name (Text ''Milk (1.2.3 X 60)'') = Inl ValueError \<and>
   parse_entry_name (Number 5) = Inl TypeError"
  by (simp add: regex_defs float_defs char_class_defs)

subsection \<open>The product name\<close>
















section \<open>Properties of the pricing engine\<close>

text \<open>
  C8, as the claim states it, fails where the two original prices are the same: a rate
  equal to both becomes the first discounted price, not the second.
\<close>

theorem equal_prices_counterexample:
  "apply_scheme_discount ''Raw Whole Milk'' (Finite 60) True equal_prices_config = Finite 55 \<and>
   py_eq (Finite 60) (price_500ml_original (scheme equal_prices_config)) \<and>
   price_500ml_discounted (scheme equal_prices_config) = Finite (55 / 2)"
  by (simp add: apply_scheme_discount_def equal_prices_config_def py_eq_def)

text \<open>
  C8, amended.  The rate is returned unchanged when the scheme is off or the product is
  not the scheme's.  With the scheme on and the product matching, a rate equal to the
  first original price becomes the first discounted price; a rate equal to the second
  original price and not to the first becomes the second discounted price; any other
  rate is returned unchanged.
\<close>

theorem scheme_substitution:
  "(\<not> apply_scheme \<or> item \<noteq> product (scheme cfg) \<longrightarrow>
      apply_scheme_discount item rate apply_scheme cfg = rate) \<and>
   (apply_scheme \<and> item = product (scheme cfg) \<and> py_eq rate (price_1l_original (scheme cfg)) \<longrightarrow>
      apply_scheme_discount item rate apply_scheme cfg = price_1l_discounted (scheme cfg)) \<and>
   (apply_scheme \<and> item = product (scheme cfg) \<and> \<not> py_eq rate (price_1l_original (scheme cfg)) \<and>
      py_eq rate (price_500ml_original (scheme cfg)) \<longrightarrow>
      apply_scheme_discount item rate apply_scheme cfg = price_500ml_discounted (scheme cfg)) \<and>
   (apply_scheme \<and> item = product (scheme cfg) \<and> \<not> py_eq rate (price_1l_original (scheme cfg)) \<and>
      \<not> py_eq rate (price_500ml_original (scheme cfg)) \<longrightarrow>
      apply_scheme_discount item rate apply_scheme cfg = rate)"
  by (simp add: apply_scheme_discount_def Let_def)

theorem scheme_substitution_witness:
  "apply_scheme_discount ''Raw Whole Milk'' (Finite 60) True default_config = Finite 55 \<and>
   apply_scheme_discount ''Raw Whole Milk'' (Finite 30) True default_config = Finite (55 / 2) \<and>
   apply_scheme_discount ''Raw Whole Milk'' (Finite 45) True default_config = Finite 45 \<and>
   apply_scheme_discount ''Curd'' (Finite 60) True default_config = Finite 60 \<and>
   apply_scheme_discount ''Raw Whole Milk'' (Finite 60) False default_config = Finite 60"
  using scheme_substitution [of True "''Raw Whole Milk''" default_config "Finite 60"]
    scheme_substitution [of True "''Raw Whole Milk''" default_config "Finite 30"]
    scheme_substitution [of True "''Raw Whole Milk''" default_config "Finite 45"]
    scheme_substitution [of True "''Curd''" default_config "Finite 60"]
    scheme_substitution [of False "''Raw Whole Milk''" default_config "Finite 60"]
  by (simp add: default_config_def py_eq_def)

subsection \<open>The loop of \<^verbatim>\<open>generate_pdf\<close>\<close>

lemma table_step_ok:
  assumes "\<not> row_raises fr t"
  shows "table_step fr a cfg (tbl, tot) t =
     Inr (case listed_line fr a cfg t of
            None \<Rightarrow> (tbl, tot)
          | Some l \<Rightarrow> (tbl @ [l], line_total tot l))"
  using assms
  by (auto simp: table_step_def row_raises_def listed_line_def Let_def
      split: option.splits sum.splits if_splits)

lemma table_step_raises:
  assumes "row_raises fr t"
  shows "isl (table_step fr a cfg acc t)"
  using assms
  by (cases acc)
     (auto simp: table_step_def row_raises_def split: option.splits sum.splits if_splits)

lemma table_loop_ok:
  "list_all (\<lambda>t. \<not> row_raises fr t) ts \<Longrightarrow>
   table_loop fr a cfg (tbl, tot) ts =
     Inr (tbl @ List.map_filter (listed_line fr a cfg) ts,
          foldl line_total tot (List.map_filter (listed_line fr a cfg) ts))"
proof (induction ts arbitrary: tbl tot)
  case Nil
  then show ?case by (simp add: List.map_filter_simps)
next
  case (Cons t ts)
  then show ?case
    by (cases "listed_line fr a cfg t") (simp_all add: table_step_ok List.map_filter_simps)
qed

lemma table_loop_raises:
  "\<not> list_all (\<lambda>t. \<not> row_raises fr t) ts \<Longrightarrow> isl (table_loop fr a cfg acc ts)"
proof (induction ts arbitrary: acc)
  case Nil
  then show ?case by simp
next
  case (Cons t ts)
  show ?case
  proof (cases "row_raises fr t")
    case True
    from table_step_raises [OF True, of a cfg acc] show ?thesis
      by (auto simp: isl_def)
  next
    case False
    with Cons.prems have "\<not> list_all (\<lambda>t. \<not> row_raises fr t) ts" by simp
    from Cons.IH [OF this] False show ?thesis
      by (cases acc) (simp add: table_step_ok)
  qed
qed

text \<open>
  C3, as the claim states it, fails: a row that does not parse is left out of the
  table.  Of a sale and a row whose description has no parenthetical, only the sale is
  listed.
\<close>

theorem unparsed_line_counterexample:
  "generate_pdf float_repr_small
     [with_date sale_row (Some (june_2024 1 * ns_per_day)),
      with_date (sale_row\<lparr>EntryName := Text ''Mystery Item''\<rparr>) (Some (june_2024 2 * ns_per_day))]
     False default_config =
   Inr ([ItemLine (june_2024 1 * ns_per_day) ''Raw Whole Milk'' (Finite 1) (Finite 60) (Finite 60)],
        Finite 60)"
  by (simp add: table_defs sample_rows regex_defs float_defs char_class_defs)

text \<open>
  C3, amended.  When no row raises, the table lists exactly the valid item and discount
  lines, in row order, and the total is the running total over the listed lines from
  zero: plus quantity times effective rate for an item line, minus the amount for a
  discount line.  A row that is not a valid line is not listed and leaves the total as
  it is.  When some row raises, so does the aggregation.
\<close>

theorem aggregation_total:
  "(list_all (\<lambda>t. \<not> row_raises fr t) ts \<longrightarrow>
      generate_pdf fr ts a cfg =
        Inr (List.map_filter (listed_line fr a cfg) ts,
             foldl line_total (Finite 0) (List.map_filter (listed_line fr a cfg) ts))) \<and>
   (\<not> list_all (\<lambda>t. \<not> row_raises fr t) ts \<longrightarrow> isl (generate_pdf fr ts a cfg))"
  by (simp add: generate_pdf_def table_loop_ok table_loop_raises)

theorem aggregation_total_witness:
  "list_all (\<lambda>t. \<not> row_raises float_repr_small t)
     [with_date sale_row (Some (june_2024 1 * ns_per_day)),
      with_date discount_row (Some (june_2024 5 * ns_per_day))] \<and>
   generate_pdf float_repr_small
     [with_date sale_row (Some (june_2024 1 * ns_per_day)),
      with_date discount_row (Some (june_2024 5 * ns_per_day))]
     False default_config =
   Inr ([ItemLine (june_2024 1 * ns_per_day) ''Raw Whole Milk'' (Finite 1) (Finite 60) (Finite 60),
         DiscountLine (june_2024 5 * ns_per_day) (Finite 10)],
        Finite 50)"
proof -
  let ?ts = "[with_date sale_row (Some (june_2024 1 * ns_per_day)),
      with_date discount_row (Some (june_2024 5 * ns_per_day))]"
  have ok: "list_all (\<lambda>t. \<not> row_raises float_repr_small t) ?ts"
    by (simp add: row_raises_def with_date_def sample_rows regex_defs float_defs char_class_defs)
  have l: "List.map_filter (listed_line float_repr_small False default_config) ?ts =
     [ItemLine (june_2024 1 * ns_per_day) ''Raw Whole Milk'' (Finite 1) (Finite 60) (Finite 60),
      DiscountLine (june_2024 5 * ns_per_day) (Finite 10)]"
    by (simp add: List.map_filter_simps listed_line_def table_defs sample_rows regex_defs
        float_defs char_class_defs)
  from ok aggregation_total [of float_repr_small ?ts False default_config]
  have "generate_pdf float_repr_small ?ts False default_config =
     Inr (List.map_filter (listed_line float_repr_small False default_config) ?ts,
          foldl line_total (Finite 0)
            (List.map_filter (listed_line float_repr_small False default_config) ?ts))"
    by blast
  with ok show ?thesis
    unfolding l by (simp add: fsub_def)
qed

end
